theory Spec2Isabelle
  imports Main
begin

section \<open>The guilded.py client: values, exceptions and effects\<close>

text \<open>
  This development embeds \<^verbatim>\<open>guilded/client.py\<close>: the constructor of \<^verbatim>\<open>Client\<close>, the
  handler registry (\<^verbatim>\<open>event\<close>, \<^verbatim>\<open>dispatch\<close>, \<^verbatim>\<open>_run_event\<close>), the connection loop
  (\<^verbatim>\<open>connect\<close> with its inner \<^verbatim>\<open>listen_socks\<close>), \<^verbatim>\<open>close\<close> and the user accessors.
  Exceptions are values, the client object is a record that every method takes and returns,
  and whatever a method does to the outside world (scheduling a task, sleeping, building a
  websocket, logging a warning, issuing a REST call) is appended to the client's trace.
\<close>

subsection \<open>Exceptions\<close>

text \<open>
  The exception classes the module raises, catches or lets through. \<^verbatim>\<open>create_task(..., name=...)\<close>
  in \<^verbatim>\<open>_schedule_event\<close> needs Python 3.8, where \<^verbatim>\<open>asyncio.CancelledError\<close> derives from
  \<^verbatim>\<open>BaseException\<close> and not from \<^verbatim>\<open>Exception\<close>, like \<^verbatim>\<open>KeyboardInterrupt\<close> and \<^verbatim>\<open>SystemExit\<close>.
  \<open>Exception s\<close> is any other subclass of \<^verbatim>\<open>Exception\<close>, by its class name.
\<close>

datatype exn =
    CancelledError
  | KeyboardInterrupt
  | SystemExit
  | ClientException
  | TypeError
  | AttributeError
  | NameError
  | TimeoutError
  | WebSocketClosure
  | HTTPException
  | Exception string

text \<open>\<^verbatim>\<open>isinstance(e, Exception)\<close>: what an \<^verbatim>\<open>except Exception\<close> clause catches.\<close>

fun is_Exception :: "exn \<Rightarrow> bool" where
  "is_Exception CancelledError = False"
| "is_Exception KeyboardInterrupt = False"
| "is_Exception SystemExit = False"
| "is_Exception _ = True"

text \<open>The name of the class of an exception, as the program spells it.\<close>

fun exn_name :: "exn \<Rightarrow> string" where
  "exn_name CancelledError = ''CancelledError''"
| "exn_name KeyboardInterrupt = ''KeyboardInterrupt''"
| "exn_name SystemExit = ''SystemExit''"
| "exn_name ClientException = ''ClientException''"
| "exn_name TypeError = ''TypeError''"
| "exn_name AttributeError = ''AttributeError''"
| "exn_name NameError = ''NameError''"
| "exn_name TimeoutError = ''TimeoutError''"
| "exn_name WebSocketClosure = ''WebSocketClosure''"
| "exn_name HTTPException = ''HTTPException''"
| "exn_name (Exception s) = s"

subsection \<open>Objects, callables and entities\<close>

text \<open>
  The objects that travel as arguments of handlers and as results of
  \<^verbatim>\<open>GuildedWebSocket.build\<close>: \<^verbatim>\<open>None\<close>, a string, a \<^verbatim>\<open>GuildedWebSocket\<close> (numbered), or an
  object of any other class (numbered).
\<close>

datatype obj = PyNone | Str string | GuildedWebSocket nat | Obj nat

text \<open>
  A callable handed to \<^verbatim>\<open>event\<close>: its \<^verbatim>\<open>__name__\<close>, what
  \<^verbatim>\<open>asyncio.iscoroutinefunction\<close> says of it, and what awaiting a call of it with given
  positional arguments ends in (\<open>Inr ()\<close>: it returns; \<open>Inl e\<close>: it raises \<open>e\<close>).
  Handlers are taken to accept the arguments they are called with; keyword arguments
  are always empty in this module's own calls and are left out. What the body of a
  handler does to the client is not part of the model, only how the call ends.
\<close>

record func =
  name_of :: string
  iscoroutinefunction :: bool
  run :: "obj list \<Rightarrow> exn + unit"

type_synonym payload = "(string \<times> string) list"

text \<open>
  \<^verbatim>\<open>User(state=..., data=...)\<close>: the constructor reads fields of the payload and performs no
  I/O; the entity is kept as the payload it was built from. Channels are kept by their ID.
\<close>

datatype user = User payload

datatype channel = TeamChannel string | DMChannel string

subsection \<open>Effects\<close>

datatype effect =
    CreateTask func "obj list"    \<comment> \<open>\<^verbatim>\<open>self.loop.create_task(coro(*args))\<close>\<close>
  | Await func "obj list"         \<comment> \<open>the call \<^verbatim>\<open>coro(*args)\<close> is awaited: by \<^verbatim>\<open>_run_event\<close>, or as a task\<close>
  | RunEventTask func string "obj list"
      \<comment> \<open>\<^verbatim>\<open>asyncio.create_task(self._run_event(coro, event_name, *args))\<close>\<close>
  | Build                         \<comment> \<open>\<^verbatim>\<open>GuildedWebSocket.build(self, loop=self.loop)\<close> under \<^verbatim>\<open>wait_for(..., timeout=60)\<close>\<close>
  | Sleep nat                     \<comment> \<open>\<^verbatim>\<open>await asyncio.sleep(seconds)\<close>\<close>
  | WarnClosed                    \<comment> \<open>warning: websocket closed, no reconnect\<close>
  | WarnReconnect nat             \<comment> \<open>warning: websocket closed, reconnecting in so many seconds\<close>
  | WarnTimeout                   \<comment> \<open>warning: timed out trying to reconnect\<close>
  | HttpGetUser string            \<comment> \<open>the REST call \<^verbatim>\<open>self.http.get_user(id)\<close>\<close>

subsection \<open>The client object\<close>

text \<open>
  The attributes of a \<^verbatim>\<open>Client\<close> that the modelled methods read or write. \<open>http_token\<close>,
  \<open>http_ws\<close> and the three caches live in \<^verbatim>\<open>self.http\<close>; \<open>attrs\<close> holds the instance
  attributes that \<^verbatim>\<open>event\<close> creates with \<^verbatim>\<open>setattr\<close>; \<open>trace\<close> is the log of effects.
\<close>

record client =
  bot_id :: string
  max_messages :: "nat option"
  http_token :: "string option"
  http_ws :: "obj option"
  users :: "string \<rightharpoonup> user"
  team_channels :: "string \<rightharpoonup> channel"
  dm_channels :: "string \<rightharpoonup> channel"
  closed :: bool
  ready :: bool
  ws :: "obj option"
  disable_team_websockets :: bool
  listeners :: "string \<rightharpoonup> func"
  attrs :: "string \<rightharpoonup> func"
  cache_on_startup :: "string \<rightharpoonup> bool"
  trace :: "effect list"

definition emit :: "effect list \<Rightarrow> client \<Rightarrow> client" where
  "emit es c = c\<lparr>trace := trace c @ es\<rparr>"

section \<open>The constructor\<close>

text \<open>
  \<^verbatim>\<open>cache_on_startup.get(key) or True\<close>: the looked-up value when it is truthy, else \<^verbatim>\<open>True\<close>.
  The option is documented as a mapping to \<^verbatim>\<open>bool\<close>; a missing key gives \<^verbatim>\<open>None\<close>.
\<close>

definition or_True :: "bool option \<Rightarrow> bool" where
  "or_True v = (case v of None \<Rightarrow> True | Some b \<Rightarrow> (if b then b else True))"

text \<open>
  \<^verbatim>\<open>Client(bot_id, cache_on_startup=opt)\<close> with the other options at their defaults; an
  absent \<^verbatim>\<open>cache_on_startup\<close> is the empty mapping. The HTTP client starts with no token
  and empty caches.
\<close>

definition Client_init :: "string \<Rightarrow> (string \<rightharpoonup> bool) \<Rightarrow> client" where
  "Client_init bid opt =
     \<lparr>bot_id = bid,
      max_messages = Some 1000,
      http_token = None,
      http_ws = None,
      users = Map.empty,
      team_channels = Map.empty,
      dm_channels = Map.empty,
      closed = False,
      ready = False,
      ws = None,
      disable_team_websockets = False,
      listeners = Map.empty,
      attrs = Map.empty,
      cache_on_startup =
        [''members'' \<mapsto> or_True (opt ''members''),
         ''channels'' \<mapsto> or_True (opt ''channels'')],
      trace = []\<rparr>"

section \<open>The handler registry\<close>

text \<open>
  The properties of \<^verbatim>\<open>Client\<close> that have no setter: \<^verbatim>\<open>setattr\<close> on one of these names
  raises \<^verbatim>\<open>AttributeError\<close>.
\<close>

definition readonly_properties :: "string list" where
  "readonly_properties =
     [''cached_messages'', ''emojis'', ''teams'', ''users'', ''members'', ''dm_channels'',
      ''private_channels'', ''team_channels'', ''channels'', ''guilds'', ''latency'',
      ''closed'']"

text \<open>
  \<^verbatim>\<open>event(coro)\<close>: the coroutine check, \<^verbatim>\<open>setattr(self, coro.__name__, coro)\<close>, the entry in
  \<^verbatim>\<open>self._listeners\<close>, and the handler as result. Names that shadow an instance attribute
  set by the constructor are not expected of handlers.
\<close>

definition event :: "client \<Rightarrow> func \<Rightarrow> (exn + func) \<times> client" where
  "event c coro =
     (if \<not> iscoroutinefunction coro then (Inl TypeError, c)
      else if name_of coro \<in> set readonly_properties then (Inl AttributeError, c)
      else (Inr coro,
            c\<lparr>attrs := (attrs c)(name_of coro \<mapsto> coro),
              listeners := (listeners c)(name_of coro \<mapsto> coro)\<rparr>))"

text \<open>
  \<^verbatim>\<open>dispatch(event_name, *args)\<close>: looks \<^verbatim>\<open>on_<event_name>\<close> up in the registry; with no
  entry it returns at once, else it schedules one task that runs the handler.
\<close>

definition dispatch :: "client \<Rightarrow> string \<Rightarrow> obj list \<Rightarrow> client" where
  "dispatch c event_name args =
     (case listeners c (''on_'' @ event_name) of
        None \<Rightarrow> c
      | Some coro \<Rightarrow> emit [CreateTask coro args] c)"

text \<open>
  \<^verbatim>\<open>Client.on_error\<close> as the class defines it: it prints the event name and the traceback
  to standard error and returns.
\<close>

definition Client_on_error :: func where
  "Client_on_error = \<lparr>name_of = ''on_error'', iscoroutinefunction = True, run = (\<lambda>_. Inr ())\<rparr>"

text \<open>
  \<^verbatim>\<open>self.on_error\<close>: an instance attribute of that name (created by \<^verbatim>\<open>event\<close>) shadows the
  method of the class.
\<close>

definition on_error :: "client \<Rightarrow> func" where
  "on_error c = (case attrs c ''on_error'' of None \<Rightarrow> Client_on_error | Some h \<Rightarrow> h)"

text \<open>
  \<^verbatim>\<open>_run_event(coro, event_name, *args)\<close>: awaits the handler; \<^verbatim>\<open>CancelledError\<close> is passed
  over, any other \<^verbatim>\<open>Exception\<close> goes to \<^verbatim>\<open>on_error(event_name, *args)\<close>, whose own
  \<^verbatim>\<open>CancelledError\<close> is passed over too. Nothing else is caught.
\<close>

definition run_event :: "client \<Rightarrow> func \<Rightarrow> string \<Rightarrow> obj list \<Rightarrow> (exn + unit) \<times> client" where
  "run_event c coro event_name args =
     (let c1 = emit [Await coro args] c in
      case run coro args of
        Inr _ \<Rightarrow> (Inr (), c1)
      | Inl e \<Rightarrow>
          if e = CancelledError then (Inr (), c1)
          else if is_Exception e then
            (let hook = on_error c1;
                 c2 = emit [Await hook (Str event_name # args)] c1 in
             case run hook (Str event_name # args) of
               Inr _ \<Rightarrow> (Inr (), c2)
             | Inl e' \<Rightarrow> if e' = CancelledError then (Inr (), c2) else (Inl e', c2))
          else (Inl e, c1))"

text \<open>\<^verbatim>\<open>_schedule_event\<close>: wraps the handler in \<^verbatim>\<open>_run_event\<close> and schedules that as a task.\<close>

definition schedule_event :: "client \<Rightarrow> func \<Rightarrow> string \<Rightarrow> obj list \<Rightarrow> client" where
  "schedule_event c coro event_name args = emit [RunEventTask coro event_name args] c"

text \<open>
  What the event loop does when it runs a scheduled task: it awaits the coroutine the task
  wraps. A task made by \<^verbatim>\<open>dispatch\<close> wraps the bare handler call, so an exception of the
  handler ends the task with nothing to catch it; a task made by \<^verbatim>\<open>_schedule_event\<close> wraps
  \<^verbatim>\<open>_run_event\<close>. Effects that are no tasks have nothing to run.
\<close>

fun run_task :: "client \<Rightarrow> effect \<Rightarrow> (exn + unit) \<times> client" where
  "run_task c (CreateTask coro args) = (run coro args, emit [Await coro args] c)"
| "run_task c (RunEventTask coro event_name args) = run_event c coro event_name args"
| "run_task c e = (Inr (), c)"

section \<open>Closing\<close>

text \<open>
  \<^verbatim>\<open>close()\<close> returns at once on a closed client. Otherwise it runs
  \<^verbatim>\<open>await ws.close(code=1000)\<close> under \<^verbatim>\<open>except Exception: pass\<close>, then sets \<^verbatim>\<open>_closed\<close> and
  clears \<^verbatim>\<open>_ready\<close>. \<open>close_with r\<close> is \<^verbatim>\<open>close\<close> with \<open>r\<close> the outcome of the guarded
  statement.
\<close>

definition close_with :: "exn + unit \<Rightarrow> client \<Rightarrow> (exn + unit) \<times> client" where
  "close_with r c =
     (if closed c then (Inr (), c)
      else case r of
        Inr _ \<Rightarrow> (Inr (), c\<lparr>closed := True, ready := False\<rparr>)
      | Inl e \<Rightarrow>
          if is_Exception e then (Inr (), c\<lparr>closed := True, ready := False\<rparr>)
          else (Inl e, c))"

text \<open>
  Inside \<^verbatim>\<open>close\<close> the name \<^verbatim>\<open>ws\<close> is bound neither locally nor in the module (the socket is
  \<^verbatim>\<open>self.ws\<close>), so evaluating \<^verbatim>\<open>ws.close(code=1000)\<close> raises \<^verbatim>\<open>NameError\<close> before any frame is
  sent.
\<close>

definition ws_close :: "exn + unit" where
  "ws_close = Inl NameError"

definition close :: "client \<Rightarrow> (exn + unit) \<times> client" where
  "close c = close_with ws_close c"

section \<open>The connection loop\<close>

text \<open>
  The outside world is a script: the outcomes of the successive \<^verbatim>\<open>ws.poll_event()\<close> calls
  and of the successive \<^verbatim>\<open>wait_for(GuildedWebSocket.build(...), timeout=60)\<close> calls, in the
  order the loop makes them. The outcomes are those the loop tells apart: \<^verbatim>\<open>poll_event\<close>
  returns or raises \<^verbatim>\<open>WebSocketClosure\<close>, the build returns an object or times out.
  A coroutine whose script has run out stays suspended in that call: its status is
  \<open>Awaiting\<close>.
\<close>

datatype poll_result =
    PollOk          \<comment> \<open>\<^verbatim>\<open>poll_event\<close> returned\<close>
  | PollClosure     \<comment> \<open>\<^verbatim>\<open>poll_event\<close> raised \<^verbatim>\<open>WebSocketClosure\<close>\<close>

datatype build_result =
    Built obj       \<comment> \<open>the build returned this object within the timeout\<close>
  | BuildTimeout    \<comment> \<open>\<^verbatim>\<open>wait_for\<close> raised \<^verbatim>\<open>asyncio.TimeoutError\<close>\<close>

datatype status = Returned | Raised exn | Awaiting

text \<open>
  What \<^verbatim>\<open>listen_socks\<close> does on a closure when it reconnects, up to the point where it
  awaits the new websocket: the warning, \<^verbatim>\<open>self.dispatch('disconnect')\<close>, the sleep of
  \<^verbatim>\<open>next_backoff_time\<close> seconds and the build.
\<close>

definition closure_reconnect :: "client \<Rightarrow> nat \<Rightarrow> client" where
  "closure_reconnect c next_backoff_time =
     emit [Sleep next_backoff_time, Build]
       (dispatch (emit [WarnReconnect next_backoff_time] c) ''disconnect'' [])"

text \<open>
  The loop of \<^verbatim>\<open>listen_socks\<close>, \<^verbatim>\<open>while True and ws is not None\<close>, with the local variables
  \<^verbatim>\<open>next_backoff_time\<close> and \<^verbatim>\<open>ws\<close> as arguments. It returns the unread rest of the script.
  \<^verbatim>\<open>reconnect\<close> is a \<^verbatim>\<open>bool\<close>, so \<^verbatim>\<open>reconnect is False\<close> is its negation.
  \<^verbatim>\<open>self.dispatch\<close> and \<^verbatim>\<open>self.close\<close> are taken to be the methods of the class, as they
  are unless a handler of that name was registered (see \<open>unshadowed\<close> below).
  A rebuilt \<^verbatim>\<open>ws\<close> is not type-checked here, so an object that is no websocket fails at
  \<^verbatim>\<open>ws.poll_event\<close> with \<^verbatim>\<open>AttributeError\<close>, which nothing catches.
\<close>

fun listen_loop ::
  "client \<Rightarrow> bool \<Rightarrow> nat \<Rightarrow> obj \<Rightarrow> poll_result list \<Rightarrow> build_result list
     \<Rightarrow> status \<times> client \<times> poll_result list \<times> build_result list" where
  "listen_loop c reconnect nb PyNone ps bs = (Returned, c, ps, bs)"
| "listen_loop c reconnect nb (Str s) ps bs = (Raised AttributeError, c, ps, bs)"
| "listen_loop c reconnect nb (Obj k) ps bs = (Raised AttributeError, c, ps, bs)"
| "listen_loop c reconnect nb (GuildedWebSocket w) [] bs = (Awaiting, c, [], bs)"
| "listen_loop c reconnect nb (GuildedWebSocket w) (PollOk # ps) bs =
     listen_loop c reconnect 5 (GuildedWebSocket w) ps bs"
| "listen_loop c False nb (GuildedWebSocket w) (PollClosure # ps) bs =
     (case close (emit [WarnClosed] c) of
        (Inl e, c') \<Rightarrow> (Raised e, c', ps, bs)
      | (Inr _, c') \<Rightarrow> (Returned, c', ps, bs))"
| "listen_loop c True nb (GuildedWebSocket w) (PollClosure # ps) [] =
     (Awaiting, closure_reconnect c nb, ps, [])"
| "listen_loop c True nb (GuildedWebSocket w) (PollClosure # ps) (Built ws' # bs) =
     listen_loop (closure_reconnect c nb) True nb ws' ps bs"
| "listen_loop c True nb (GuildedWebSocket w) (PollClosure # ps) (BuildTimeout # bs) =
     listen_loop (emit [WarnTimeout] (closure_reconnect c nb)) True (nb + 5)
       (GuildedWebSocket w) ps bs"

text \<open>\<^verbatim>\<open>listen_socks(ws)\<close>: \<^verbatim>\<open>next_backoff_time = 5\<close>, then the loop.\<close>

definition listen_socks ::
  "client \<Rightarrow> bool \<Rightarrow> obj \<Rightarrow> poll_result list \<Rightarrow> build_result list
     \<Rightarrow> status \<times> client \<times> poll_result list \<times> build_result list" where
  "listen_socks c reconnect ws0 ps bs = listen_loop c reconnect 5 ws0 ps bs"

lemma listen_loop_builds_left:
  "length (snd (snd (snd (listen_loop c reconnect nb w ps bs)))) \<le> length bs"
  by (induction c reconnect nb w ps bs rule: listen_loop.induct)
     (auto split: prod.splits sum.splits)

lemma listen_socks_builds_left:
  "listen_socks c reconnect w ps bs = (st, c', ps', bs') \<Longrightarrow> length bs' \<le> length bs"
  using listen_loop_builds_left [of c reconnect 5 w ps bs] by (simp add: listen_socks_def)

text \<open>
  What \<^verbatim>\<open>connect\<close> does with a freshly built websocket before it listens:
  \<^verbatim>\<open>self.ws = gws\<close>, \<^verbatim>\<open>self.http.ws = self.ws\<close>, \<^verbatim>\<open>self.dispatch('connect')\<close>,
  \<^verbatim>\<open>self._ready.set()\<close>, \<^verbatim>\<open>self.dispatch('ready')\<close>.
\<close>

definition connected :: "client \<Rightarrow> obj \<Rightarrow> client" where
  "connected c gws =
     dispatch ((dispatch (c\<lparr>ws := Some gws, http_ws := Some gws\<rparr>) ''connect'' [])\<lparr>ready := True\<rparr>)
       ''ready'' []"

text \<open>
  The loop of \<^verbatim>\<open>connect\<close>, \<^verbatim>\<open>while not self.closed\<close>. The first build is not guarded: a
  timeout there leaves \<^verbatim>\<open>connect\<close> as \<^verbatim>\<open>asyncio.TimeoutError\<close>. A result that is no
  \<^verbatim>\<open>GuildedWebSocket\<close> is dispatched as \<^verbatim>\<open>error\<close> and ends \<^verbatim>\<open>connect\<close>.
\<close>

function connect_loop ::
  "client \<Rightarrow> bool \<Rightarrow> poll_result list \<Rightarrow> build_result list \<Rightarrow> status \<times> client" where
  "connect_loop c reconnect ps [] =
     (if closed c then (Returned, c) else (Awaiting, emit [Build] c))"
| "connect_loop c reconnect ps (BuildTimeout # bs) =
     (if closed c then (Returned, c) else (Raised TimeoutError, emit [Build] c))"
| "connect_loop c reconnect ps (Built gws # bs) =
     (if closed c then (Returned, c)
      else case gws of
        GuildedWebSocket w \<Rightarrow>
          (case listen_socks (connected (emit [Build] c) gws) reconnect gws ps bs of
             (st, c', ps', bs') \<Rightarrow>
               if st = Returned then connect_loop c' reconnect ps' bs' else (st, c'))
      | _ \<Rightarrow> (Returned, dispatch (emit [Build] c) ''error'' [gws]))"
  by pat_completeness auto
termination
  by (relation "measure (\<lambda>(c, reconnect, ps, bs). length bs)")
     (auto simp: less_Suc_eq_le dest: listen_socks_builds_left [OF sym])

text \<open>Python truthiness of an optional string: \<^verbatim>\<open>None\<close> and \<^verbatim>\<open>''\<close> are false.\<close>

definition truthy :: "string option \<Rightarrow> bool" where
  "truthy t = (case t of None \<Rightarrow> False | Some s \<Rightarrow> s \<noteq> [])"

text \<open>
  \<^verbatim>\<open>connect(token, reconnect=...)\<close>: \<^verbatim>\<open>self.http.token = token or self.http.token\<close>, the
  token check, then the loop.
\<close>

definition connect ::
  "client \<Rightarrow> string option \<Rightarrow> bool \<Rightarrow> poll_result list \<Rightarrow> build_result list \<Rightarrow> status \<times> client" where
  "connect c token reconnect ps bs =
     (let c1 = c\<lparr>http_token := (if truthy token then token else http_token c)\<rparr> in
      if \<not> truthy (http_token c1) then (Raised ClientException, c1)
      else connect_loop c1 reconnect ps bs)"

section \<open>User and channel accessors\<close>

text \<open>
  Modelled from the spec: \<^verbatim>\<open>HTTPClient._get_user\<close>, \<^verbatim>\<open>HTTPClient._get_global_team_channel\<close>
  and \<^verbatim>\<open>HTTPClient._get_dm_channel\<close> are not among the sources. The spec's Entity Cache is
  a set of in-memory mappings from ID to entity whose \<^verbatim>\<open>get(kind, id)\<close> gives the entity or
  nothing, by pure in-memory map operations.
\<close>

definition http_cache_get_user :: "client \<Rightarrow> string \<Rightarrow> user option \<times> client" where
  "http_cache_get_user c uid = (users c uid, c)"

definition http_cache_get_global_team_channel :: "client \<Rightarrow> string \<Rightarrow> channel option \<times> client" where
  "http_cache_get_global_team_channel c cid = (team_channels c cid, c)"

definition http_cache_get_dm_channel :: "client \<Rightarrow> string \<Rightarrow> channel option \<times> client" where
  "http_cache_get_dm_channel c cid = (dm_channels c cid, c)"

text \<open>
  Modelled from the spec: \<^verbatim>\<open>HTTPClient.get_user\<close> is not among the sources. The spec's REST
  Client issues one HTTP request and returns a decoded payload or fails with an HTTP error;
  the response is the argument \<open>response\<close>.
\<close>

definition http_get_user :: "client \<Rightarrow> string \<Rightarrow> exn + payload \<Rightarrow> (exn + payload) \<times> client" where
  "http_get_user c uid response = (response, emit [HttpGetUser uid] c)"

text \<open>\<^verbatim>\<open>get_user(id)\<close>: \<^verbatim>\<open>return self.http._get_user(id)\<close>.\<close>

definition get_user :: "client \<Rightarrow> string \<Rightarrow> user option \<times> client" where
  "get_user c uid = http_cache_get_user c uid"

text \<open>
  \<^verbatim>\<open>get_channel(id)\<close>: \<^verbatim>\<open>self.http._get_global_team_channel(id) or self.http._get_dm_channel(id)\<close>;
  a channel object is truthy.
\<close>

definition get_channel :: "client \<Rightarrow> string \<Rightarrow> channel option \<times> client" where
  "get_channel c cid =
     (case http_cache_get_global_team_channel c cid of
        (Some ch, c1) \<Rightarrow> (Some ch, c1)
      | (None, c1) \<Rightarrow> http_cache_get_dm_channel c1 cid)"

text \<open>\<^verbatim>\<open>fetch_user(id)\<close>: awaits the REST call and wraps the payload in a \<^verbatim>\<open>User\<close>.\<close>

definition fetch_user :: "client \<Rightarrow> string \<Rightarrow> exn + payload \<Rightarrow> (exn + user) \<times> client" where
  "fetch_user c uid response =
     (case http_get_user c uid response of
        (Inl e, c1) \<Rightarrow> (Inl e, c1)
      | (Inr data, c1) \<Rightarrow> (Inr (User data), c1))"

text \<open>
  \<^verbatim>\<open>getch_user(id)\<close>: \<^verbatim>\<open>self.get_user(id) or await self.fetch_user(id)\<close>; a \<^verbatim>\<open>User\<close> defines
  neither \<^verbatim>\<open>__bool__\<close> nor \<^verbatim>\<open>__len__\<close> and is truthy.
\<close>

definition getch_user :: "client \<Rightarrow> string \<Rightarrow> exn + payload \<Rightarrow> (exn + user) \<times> client" where
  "getch_user c uid response =
     (case get_user c uid of
        (Some u, c1) \<Rightarrow> (Inr u, c1)
      | (None, c1) \<Rightarrow> fetch_user c1 uid response)"

section \<open>Observing traces\<close>

text \<open>The durations of the sleeps in a trace, in order, and the number of builds in it.\<close>

fun sleeps :: "effect list \<Rightarrow> nat list" where
  "sleeps [] = []"
| "sleeps (Sleep n # es) = n # sleeps es"
| "sleeps (e # es) = sleeps es"

fun builds :: "effect list \<Rightarrow> nat" where
  "builds [] = 0"
| "builds (Build # es) = Suc (builds es)"
| "builds (e # es) = builds es"

text \<open>
  The attributes of the client that \<^verbatim>\<open>connect\<close>, \<^verbatim>\<open>listen_socks\<close>, \<^verbatim>\<open>dispatch\<close> and \<^verbatim>\<open>close\<close>
  reach through \<^verbatim>\<open>self\<close> and that \<^verbatim>\<open>setattr\<close> can replace. \<^verbatim>\<open>event\<close> stores a handler under
  its own name, so a handler with one of these names shadows the attribute: \<^verbatim>\<open>self.close()\<close>
  and \<^verbatim>\<open>self.dispatch(...)\<close> then call the handler. The loop is embedded with the methods
  and attributes of the class; \<open>unshadowed\<close> says that this is what \<^verbatim>\<open>self\<close> gives.
\<close>

definition loop_attributes :: "string list" where
  "loop_attributes =
     [''http'', ''loop'', ''dispatch'', ''close'', ''_ready'', ''_closed'', ''_listeners'']"

definition unshadowed :: "client \<Rightarrow> bool" where
  "unshadowed c = list_all (\<lambda>n. attrs c n = None) loop_attributes"

text \<open>
  The backoff schedule in words of its own, with no client and no trace: \<open>k\<close> counts the
  reconnect attempts that timed out since listening began or since the last event was
  polled successfully, and the wait before the next attempt is \<open>5 + 5 * k\<close> seconds. A
  closure is waited for and followed by one attempt; a timed-out attempt adds one to
  \<open>k\<close>; a successful one leaves \<open>k\<close> as it is and goes on with the new websocket; a polled
  event sets \<open>k\<close> back to 0. Listening ends when the script does or when the rebuilt
  object is no websocket.
\<close>

fun backoff_waits :: "nat \<Rightarrow> obj \<Rightarrow> poll_result list \<Rightarrow> build_result list \<Rightarrow> nat list" where
  "backoff_waits k (GuildedWebSocket w) (PollOk # ps) bs =
     backoff_waits 0 (GuildedWebSocket w) ps bs"
| "backoff_waits k (GuildedWebSocket w) (PollClosure # ps) [] = [5 + 5 * k]"
| "backoff_waits k (GuildedWebSocket w) (PollClosure # ps) (BuildTimeout # bs) =
     (5 + 5 * k) # backoff_waits (Suc k) (GuildedWebSocket w) ps bs"
| "backoff_waits k (GuildedWebSocket w) (PollClosure # ps) (Built ws' # bs) =
     (5 + 5 * k) # backoff_waits k ws' ps bs"
| "backoff_waits k ws0 ps bs = []"

text \<open>
  A trace made of reconnect rounds only: each round is the warning, one task for the
  handler \<open>h\<close> with no arguments, the sleep of the announced duration and the build, in
  that order; a timeout warning may follow a round.
\<close>

fun reconnect_blocks :: "func \<Rightarrow> effect list \<Rightarrow> bool" where
  "reconnect_blocks h [] = True"
| "reconnect_blocks h (e # es) =
     (case e of
        WarnTimeout \<Rightarrow> reconnect_blocks h es
      | WarnReconnect n \<Rightarrow>
          take 3 es = [CreateTask h [], Sleep n, Build] \<and> reconnect_blocks h (drop 3 es)
      | _ \<Rightarrow> False)"

section \<open>Example handlers and clients\<close>

definition returning :: "string \<Rightarrow> func" where
  "returning n = \<lparr>name_of = n, iscoroutinefunction = True, run = (\<lambda>_. Inr ())\<rparr>"

definition raising :: "string \<Rightarrow> exn \<Rightarrow> func" where
  "raising n e = \<lparr>name_of = n, iscoroutinefunction = True, run = (\<lambda>_. Inl e)\<rparr>"

definition plain_function :: "string \<Rightarrow> func" where
  "plain_function n = \<lparr>name_of = n, iscoroutinefunction = False, run = (\<lambda>_. Inr ())\<rparr>"

definition fresh_client :: client where
  "fresh_client = Client_init ''bot'' Map.empty"

definition listening_client :: client where
  "listening_client = snd (event fresh_client (returning ''on_disconnect''))"

definition cached_client :: client where
  "cached_client = fresh_client\<lparr>users := [''u1'' \<mapsto> User [(''id'', ''u1'')]]\<rparr>"

definition failing_client :: client where
  "failing_client = snd (event fresh_client (raising ''on_message'' (Exception ''ValueError'')))"

section \<open>The constructor option \<^verbatim>\<open>cache_on_startup\<close>\<close>

text \<open>
  C10: whatever mapping is passed as \<^verbatim>\<open>cache_on_startup\<close> (a key set to \<^verbatim>\<open>False\<close>, to
  \<^verbatim>\<open>True\<close>, or absent), the client's settings for \<^verbatim>\<open>members\<close> and \<^verbatim>\<open>channels\<close> are both
  \<^verbatim>\<open>True\<close>: the option cannot switch startup caching off.
\<close>

theorem cache_on_startup_always_enabled:
  "cache_on_startup (Client_init bid opt) ''members'' = Some True
   \<and> cache_on_startup (Client_init bid opt) ''channels'' = Some True"
  by (simp add: Client_init_def or_True_def split: option.split)

theorem cache_on_startup_always_enabled_witness:
  "cache_on_startup (Client_init ''bot'' [''members'' \<mapsto> False, ''channels'' \<mapsto> False]) ''members''
     = Some True
   \<and> cache_on_startup (Client_init ''bot'' [''members'' \<mapsto> False, ''channels'' \<mapsto> False]) ''channels''
     = Some True"
  by (rule cache_on_startup_always_enabled)

section \<open>Dispatching\<close>

text \<open>
  C5: dispatching an event for which the registry has no handler schedules nothing, raises
  nothing and returns the client as it was: registry, caches, flags and trace.
\<close>

theorem dispatch_unregistered:
  "listeners c (''on_'' @ event_name) = None \<Longrightarrow> dispatch c event_name args = c"
  by (simp add: dispatch_def)

theorem dispatch_unregistered_witness:
  "listeners listening_client (''on_'' @ ''message'') = None
   \<and> dispatch listening_client ''message'' [Str ''hello''] = listening_client"
proof -
  have none: "listeners listening_client (''on_'' @ ''message'') = None"
    by (simp add: listening_client_def fresh_client_def Client_init_def event_def returning_def
        readonly_properties_def)
  from none dispatch_unregistered [OF none] show ?thesis
    by simp
qed

section \<open>Closing a client\<close>

lemma close_open:
  "\<not> closed c \<Longrightarrow> close c = (Inr (), c\<lparr>closed := True, ready := False\<rparr>)"
  by (simp add: close_def close_with_def ws_close_def)

lemma close_never_raises: "fst (close c) = Inr ()"
  by (simp add: close_def close_with_def ws_close_def)

text \<open>
  C6: \<^verbatim>\<open>close()\<close> on a closed client returns normally and leaves the client as it is;
  \<^verbatim>\<open>close()\<close> never raises, on any client; whatever \<^verbatim>\<open>Exception\<close> the guarded close
  statement raises is swallowed; and a second \<^verbatim>\<open>close()\<close> after a first changes nothing.
\<close>

theorem close_already_closed:
  "(closed c \<longrightarrow> close c = (Inr (), c))
   \<and> fst (close c) = Inr ()
   \<and> (is_Exception e \<longrightarrow> fst (close_with (Inl e) c) = Inr ())
   \<and> close (snd (close c)) = (Inr (), snd (close c))"
  by (simp add: close_def close_with_def ws_close_def)

theorem close_already_closed_witness:
  "closed (snd (close fresh_client))
   \<and> close (snd (close fresh_client)) = (Inr (), snd (close fresh_client))
   \<and> fst (close (snd (close fresh_client))) = Inr ()
   \<and> is_Exception NameError
   \<and> fst (close_with (Inl NameError) (snd (close fresh_client))) = Inr ()"
proof -
  have shut: "closed (snd (close fresh_client))"
    by (simp add: close_def close_with_def ws_close_def)
  have exc: "is_Exception NameError"
    by simp
  from close_already_closed [of "snd (close fresh_client)" NameError] shut exc show ?thesis
    by blast
qed

section \<open>Reconnecting with backoff\<close>

lemma sleeps_append: "sleeps (xs @ ys) = sleeps xs @ sleeps ys"
  by (induction xs rule: sleeps.induct) simp_all

lemma builds_append: "builds (xs @ ys) = builds xs + builds ys"
  by (induction xs rule: builds.induct) simp_all

lemma sleeps_dispatch: "sleeps (trace (dispatch c ev args)) = sleeps (trace c)"
  by (simp add: dispatch_def emit_def sleeps_append split: option.split)

lemma builds_dispatch: "builds (trace (dispatch c ev args)) = builds (trace c)"
  by (simp add: dispatch_def emit_def builds_append split: option.split)

lemma sleeps_closure_reconnect:
  "sleeps (trace (closure_reconnect c nb)) = sleeps (trace c) @ [nb]"
  by (simp add: closure_reconnect_def emit_def sleeps_append sleeps_dispatch)

text \<open>
  From any value \<open>nb\<close> of \<^verbatim>\<open>next_backoff_time\<close>: closures whose reconnect attempts all time
  out are waited for \<open>nb\<close>, \<open>nb + 5\<close>, \<open>nb + 10\<close>, ... seconds.
\<close>

lemma backoff_from:
  "sleeps (trace (fst (snd (listen_loop c True nb (GuildedWebSocket w)
       (replicate (Suc n) PollClosure) (replicate n BuildTimeout)))))
   = sleeps (trace c) @ map (\<lambda>k. nb + 5 * k) [0..<Suc n]"
proof (induction n arbitrary: c nb)
  case 0
  show ?case by (simp add: sleeps_closure_reconnect)
next
  case (Suc n)
  have "sleeps (trace (fst (snd (listen_loop c True nb (GuildedWebSocket w)
       (replicate (Suc (Suc n)) PollClosure) (replicate (Suc n) BuildTimeout)))))
    = sleeps (trace (fst (snd (listen_loop (emit [WarnTimeout] (closure_reconnect c nb)) True (nb + 5)
       (GuildedWebSocket w) (replicate (Suc n) PollClosure) (replicate n BuildTimeout)))))"
    by simp
  also have "\<dots> = sleeps (trace (emit [WarnTimeout] (closure_reconnect c nb)))
      @ map (\<lambda>k. (nb + 5) + 5 * k) [0..<Suc n]"
    by (rule Suc.IH)
  also have "\<dots> = sleeps (trace c) @ nb # map (\<lambda>k. nb + 5 * Suc k) [0..<Suc n]"
    by (simp add: emit_def sleeps_append sleeps_closure_reconnect)
  also have "\<dots> = sleeps (trace c) @ map (\<lambda>k. nb + 5 * k) [0..<Suc (Suc n)]"
    by (simp only: map_upt_Suc [of "\<lambda>k. nb + 5 * k" "Suc n"]) simp
  finally show ?case .
qed

lemma backoff_refines:
  "sleeps (trace (fst (snd (listen_loop c True (5 + 5 * k) ws0 ps bs))))
   = sleeps (trace c) @ backoff_waits k ws0 ps bs"
proof (induction c True "5 + 5 * k" ws0 ps bs arbitrary: k rule: listen_loop.induct)
  case (5 c w ps bs)
  from "5.hyps" [of 0] show ?case by simp
next
  case (8 c w ps ws' bs)
  from "8.hyps" [of k] show ?case
    by (simp add: sleeps_closure_reconnect)
next
  case (9 c w ps bs)
  from "9.hyps" [of "Suc k"] show ?case
    by (simp add: sleeps_closure_reconnect emit_def sleeps_append)
qed (simp_all add: sleeps_closure_reconnect)

lemma unshadowed_fresh: "unshadowed fresh_client"
  by (simp add: unshadowed_def loop_attributes_def fresh_client_def Client_init_def)

lemma unshadowed_listening: "unshadowed listening_client"
  by (simp add: unshadowed_def loop_attributes_def listening_client_def fresh_client_def
      Client_init_def event_def returning_def readonly_properties_def)

text \<open>
  C1, as the code has it: in every run of \<^verbatim>\<open>listen_socks\<close> with \<^verbatim>\<open>reconnect=True\<close>, whatever
  the websocket and the rebuilds do, the waits before the reconnect attempts are those of
  \<open>backoff_waits\<close>: 5 seconds when no attempt has timed out since listening began or since
  the last successfully polled event, and exactly 5 seconds more for every attempt that
  has timed out since then, with no cap. So a closure followed by \<open>n\<close> timed-out attempts
  is waited for 5, 10, 15, ..., \<open>5 * (n + 1)\<close> seconds, also after a polled event
  whatever the wait had grown to. A reconnect that succeeds does not reset the wait: only
  a polled event does.
\<close>

theorem backoff_schedule:
  "unshadowed c \<longrightarrow>
     sleeps (trace (fst (snd (listen_socks c True ws0 ps bs))))
       = sleeps (trace c) @ backoff_waits 0 ws0 ps bs
   \<and> sleeps (trace (fst (snd (listen_socks c True (GuildedWebSocket w)
         (replicate (Suc n) PollClosure) (replicate n BuildTimeout)))))
       = sleeps (trace c) @ map (\<lambda>k. 5 * Suc k) [0..<Suc n]
   \<and> sleeps (trace (fst (snd (listen_loop c True nb (GuildedWebSocket w)
         (PollOk # replicate (Suc n) PollClosure) (replicate n BuildTimeout)))))
       = sleeps (trace c) @ map (\<lambda>k. 5 * Suc k) [0..<Suc n]"
  using backoff_from [of c 5 w n] backoff_refines [of c 0 ws0 ps bs]
  by (simp add: listen_socks_def)

theorem backoff_schedule_witness:
  "unshadowed fresh_client
   \<and> sleeps (trace (fst (snd (listen_socks fresh_client True (GuildedWebSocket 0)
         [PollClosure, PollOk, PollClosure, PollClosure, PollClosure]
         [BuildTimeout, BuildTimeout, Built (GuildedWebSocket 2)]))))
       = [5, 5, 10, 10]
   \<and> sleeps (trace (fst (snd (listen_socks fresh_client True (GuildedWebSocket 0)
         [PollClosure, PollClosure, PollClosure] [BuildTimeout, BuildTimeout]))))
       = [5, 10, 15]"
proof -
  have t: "sleeps (trace fresh_client) = []"
    by (simp add: fresh_client_def Client_init_def)
  from backoff_schedule [of fresh_client "GuildedWebSocket 0"
      "[PollClosure, PollOk, PollClosure, PollClosure, PollClosure]"
      "[BuildTimeout, BuildTimeout, Built (GuildedWebSocket 2)]" 0 2 5]
    unshadowed_fresh t
  show ?thesis
    by (simp add: numeral_2_eq_2 upt_rec)
qed

text \<open>
  A closure, a timed-out reconnect, a second closure, a successful reconnect and a closure
  of the fresh websocket before any event: the waits are 5, 10 and 10 seconds, so the
  wait after the closure of the fresh websocket does not start at 5.
\<close>

theorem backoff_schedule_counterexample:
  "sleeps (trace (fst (snd (listen_socks fresh_client True (GuildedWebSocket 0)
       [PollClosure, PollClosure, PollClosure] [BuildTimeout, Built (GuildedWebSocket 2)]))))
   = [5, 10, 10]"
  by (simp add: listen_socks_def closure_reconnect_def dispatch_def emit_def
      fresh_client_def Client_init_def)

section \<open>Closures: one \<^verbatim>\<open>disconnect\<close> per reconnect, none without\<close>

lemma listeners_emit: "listeners (emit es c) = listeners c"
  by (simp add: emit_def)

lemma listeners_dispatch: "listeners (dispatch c ev args) = listeners c"
  by (simp add: dispatch_def emit_def split: option.split)

lemma listeners_closure_reconnect: "listeners (closure_reconnect c nb) = listeners c"
  by (simp add: closure_reconnect_def listeners_emit listeners_dispatch)

lemma trace_closure_reconnect:
  "listeners c ''on_disconnect'' = Some h \<Longrightarrow>
   trace (closure_reconnect c nb) = trace c @ [WarnReconnect nb, CreateTask h [], Sleep nb, Build]"
  by (simp add: closure_reconnect_def dispatch_def emit_def)

lemma listen_loop_polls_ok:
  "listen_loop c reconnect nb (GuildedWebSocket w) (replicate m PollOk @ ps) bs
   = listen_loop c reconnect (if m = 0 then nb else 5) (GuildedWebSocket w) ps bs"
  by (induction m arbitrary: nb) simp_all

lemma listen_no_reconnect:
  "\<not> closed c \<Longrightarrow>
   listen_socks c False (GuildedWebSocket w) (replicate m PollOk @ PollClosure # ps) bs
   = (Returned, c\<lparr>trace := trace c @ [WarnClosed], closed := True, ready := False\<rparr>, ps, bs)"
  by (simp add: listen_socks_def listen_loop_polls_ok close_open emit_def)

lemma closed_dispatch: "closed (dispatch c ev args) = closed c"
  by (simp add: dispatch_def emit_def split: option.split)

lemma closed_connected: "closed (connected c gws) = closed c"
  by (simp add: connected_def closed_dispatch)

lemma sleeps_connected: "sleeps (trace (connected c gws)) = sleeps (trace c)"
  by (simp add: connected_def sleeps_dispatch)

lemma builds_connected: "builds (trace (connected c gws)) = builds (trace c)"
  by (simp add: connected_def builds_dispatch)

lemma connect_loop_closed: "closed c \<Longrightarrow> connect_loop c reconnect ps bs = (Returned, c)"
  by (cases "(c, reconnect, ps, bs)" rule: connect_loop.cases) simp_all

lemma connect_no_reconnect:
  fixes w :: nat
  assumes "truthy token \<or> truthy (http_token c)" and "\<not> closed c"
  defines "c2 \<equiv> connected (emit [Build]
      (c\<lparr>http_token := (if truthy token then token else http_token c)\<rparr>)) (GuildedWebSocket w)"
  shows "connect c token False (replicate m PollOk @ PollClosure # ps)
             (Built (GuildedWebSocket w) # bs)
         = (Returned, c2\<lparr>trace := trace c2 @ [WarnClosed], closed := True, ready := False\<rparr>)"
proof -
  define c1 where "c1 = c\<lparr>http_token := (if truthy token then token else http_token c)\<rparr>"
  define c3 where "c3 = c2\<lparr>trace := trace c2 @ [WarnClosed], closed := True, ready := False\<rparr>"
  have c2: "c2 = connected (emit [Build] c1) (GuildedWebSocket w)"
    by (simp add: c2_def c1_def)
  have open2: "\<not> closed c2" and open1: "\<not> closed c1"
    using assms(2) by (simp_all add: c2 c1_def closed_connected emit_def)
  have tok: "truthy (http_token c1)"
    using assms(1) by (auto simp: c1_def)
  have "listen_socks c2 False (GuildedWebSocket w) (replicate m PollOk @ PollClosure # ps) bs
      = (Returned, c3, ps, bs)"
    unfolding c3_def using open2 by (rule listen_no_reconnect)
  then have "connect_loop c1 False (replicate m PollOk @ PollClosure # ps)
      (Built (GuildedWebSocket w) # bs) = connect_loop c3 False ps bs"
    using open1 by (simp add: c2)
  moreover have "closed c3" by (simp add: c3_def)
  then have "connect_loop c3 False ps bs = (Returned, c3)"
    by (rule connect_loop_closed)
  ultimately have "connect c token False (replicate m PollOk @ PollClosure # ps)
      (Built (GuildedWebSocket w) # bs) = (Returned, c3)"
    using tok by (simp add: connect_def c1_def Let_def)
  then show ?thesis by (simp add: c3_def)
qed

lemma listening_client_listeners:
  "listeners listening_client = [''on_disconnect'' \<mapsto> returning ''on_disconnect'']"
  by (simp add: listening_client_def fresh_client_def Client_init_def event_def returning_def
      readonly_properties_def)

lemma listening_client_open: "\<not> closed listening_client"
  by (simp add: listening_client_def fresh_client_def Client_init_def event_def returning_def
      readonly_properties_def)

lemma rounds_of_run:
  assumes "listeners c ''on_disconnect'' = Some h"
  shows "\<exists>new seen. trace (fst (snd (listen_loop c True nb ws0 ps bs))) = trace c @ new
           \<and> ps = seen @ fst (snd (snd (listen_loop c True nb ws0 ps bs)))
           \<and> reconnect_blocks h new
           \<and> count_list new (CreateTask h []) = count_list seen PollClosure
           \<and> length (sleeps new) = count_list seen PollClosure
           \<and> builds new = count_list seen PollClosure"
  using assms
proof (induction c True nb ws0 ps bs rule: listen_loop.induct)
  case (5 c nb w ps bs)
  from "5.hyps" [OF "5.prems"] obtain new seen where
    "trace (fst (snd (listen_loop c True 5 (GuildedWebSocket w) ps bs))) = trace c @ new"
    "ps = seen @ fst (snd (snd (listen_loop c True 5 (GuildedWebSocket w) ps bs)))"
    "reconnect_blocks h new"
    "count_list new (CreateTask h []) = count_list seen PollClosure"
    "length (sleeps new) = count_list seen PollClosure"
    "builds new = count_list seen PollClosure"
    by blast
  then show ?case
    by (intro exI [of _ new] exI [of _ "PollOk # seen"]) simp
next
  case (7 c nb w ps)
  show ?case
    by (intro exI [of _ "[WarnReconnect nb, CreateTask h [], Sleep nb, Build]"]
        exI [of _ "[PollClosure]"])
       (simp add: trace_closure_reconnect [OF "7.prems"])
next
  case (8 c nb w ps ws' bs)
  let ?c = "closure_reconnect c nb"
  from "8.prems" have "listeners ?c ''on_disconnect'' = Some h"
    by (simp add: listeners_closure_reconnect)
  from "8.hyps" [OF this] obtain new seen where
    "trace (fst (snd (listen_loop ?c True nb ws' ps bs))) = trace ?c @ new"
    "ps = seen @ fst (snd (snd (listen_loop ?c True nb ws' ps bs)))"
    "reconnect_blocks h new"
    "count_list new (CreateTask h []) = count_list seen PollClosure"
    "length (sleeps new) = count_list seen PollClosure"
    "builds new = count_list seen PollClosure"
    by blast
  then show ?case
    by (intro exI [of _ "[WarnReconnect nb, CreateTask h [], Sleep nb, Build] @ new"]
        exI [of _ "PollClosure # seen"])
       (simp add: trace_closure_reconnect [OF "8.prems"] sleeps_append builds_append)
next
  case (9 c nb w ps bs)
  let ?c = "emit [WarnTimeout] (closure_reconnect c nb)"
  from "9.prems" have "listeners ?c ''on_disconnect'' = Some h"
    by (simp add: listeners_closure_reconnect listeners_emit)
  from "9.hyps" [OF this] obtain new seen where
    "trace (fst (snd (listen_loop ?c True (nb + 5) (GuildedWebSocket w) ps bs))) = trace ?c @ new"
    "ps = seen @ fst (snd (snd (listen_loop ?c True (nb + 5) (GuildedWebSocket w) ps bs)))"
    "reconnect_blocks h new"
    "count_list new (CreateTask h []) = count_list seen PollClosure"
    "length (sleeps new) = count_list seen PollClosure"
    "builds new = count_list seen PollClosure"
    by blast
  then show ?case
    by (intro exI [of _ "[WarnReconnect nb, CreateTask h [], Sleep nb, Build, WarnTimeout] @ new"]
        exI [of _ "PollClosure # seen"])
       (simp add: trace_closure_reconnect [OF "9.prems"] emit_def sleeps_append builds_append)
qed simp_all

lemma take_seen: "ps = seen @ rest \<Longrightarrow> take (length ps - length rest) ps = seen"
  by simp

text \<open>
  C2: on a client whose \<^verbatim>\<open>dispatch\<close>, \<^verbatim>\<open>close\<close> and the attributes they use are those of
  the class. With \<^verbatim>\<open>reconnect=True\<close> and a handler registered as \<^verbatim>\<open>on_disconnect\<close>: a closure
  schedules that handler exactly once, after the warning and before the backoff sleep and
  the build of the new websocket; and in every run of \<^verbatim>\<open>listen_socks\<close>, whatever the script,
  what the run adds to the trace is made of such rounds only and holds exactly one
  handler task, one sleep and one build for each closure among the polls the run has
  read. With \<^verbatim>\<open>reconnect=False\<close> the first closure schedules no handler, starts no sleep
  and no build: \<^verbatim>\<open>listen_socks\<close> logs the closure, closes the client and returns, and
  \<^verbatim>\<open>connect\<close> returns with the client closed, having built only the first websocket and
  added nothing but that warning to the trace after connecting.
\<close>

theorem disconnect_per_closure:
  "(unshadowed c \<and> listeners c ''on_disconnect'' = Some h \<longrightarrow>
      listen_socks c True (GuildedWebSocket w) (PollClosure # ps) []
        = (Awaiting, emit [WarnReconnect 5, CreateTask h [], Sleep 5, Build] c, ps, [])
      \<and> (let r = listen_socks c True ws0 ps bs;
              rest = fst (snd (snd r));
              seen = take (length ps - length rest) ps;
              new = drop (length (trace c)) (trace (fst (snd r)))
          in trace (fst (snd r)) = trace c @ new
             \<and> ps = seen @ rest
             \<and> reconnect_blocks h new
             \<and> count_list new (CreateTask h []) = count_list seen PollClosure
             \<and> length (sleeps new) = count_list seen PollClosure
             \<and> builds new = count_list seen PollClosure))
   \<and> (unshadowed c \<and> \<not> closed c \<longrightarrow>
        listen_socks c False (GuildedWebSocket w) (replicate m PollOk @ PollClosure # ps) bs
          = (Returned, c\<lparr>trace := trace c @ [WarnClosed], closed := True, ready := False\<rparr>, ps, bs))
   \<and> (unshadowed c \<and> (truthy token \<or> truthy (http_token c)) \<and> \<not> closed c \<longrightarrow>
        (let r = connect c token False (replicate m PollOk @ PollClosure # ps)
                   (Built (GuildedWebSocket w) # bs);
             c1 = connected (emit [Build]
                   (c\<lparr>http_token := (if truthy token then token else http_token c)\<rparr>))
                   (GuildedWebSocket w)
         in r = (Returned, c1\<lparr>trace := trace c1 @ [WarnClosed], closed := True, ready := False\<rparr>)
            \<and> fst r = Returned \<and> closed (snd r)
            \<and> sleeps (trace (snd r)) = sleeps (trace c)
            \<and> builds (trace (snd r)) = Suc (builds (trace c))))"
proof (intro conjI impI)
  assume a: "unshadowed c \<and> listeners c ''on_disconnect'' = Some h"
  then have h: "listeners c ''on_disconnect'' = Some h"
    by simp
  then show "listen_socks c True (GuildedWebSocket w) (PollClosure # ps) []
        = (Awaiting, emit [WarnReconnect 5, CreateTask h [], Sleep 5, Build] c, ps, [])"
    by (simp add: listen_socks_def closure_reconnect_def dispatch_def emit_def)
  from rounds_of_run [OF h, of 5 ws0 ps bs] obtain new seen where
    n: "trace (fst (snd (listen_socks c True ws0 ps bs))) = trace c @ new"
    and s: "ps = seen @ fst (snd (snd (listen_socks c True ws0 ps bs)))"
    and r: "reconnect_blocks h new"
      "count_list new (CreateTask h []) = count_list seen PollClosure"
      "length (sleeps new) = count_list seen PollClosure"
      "builds new = count_list seen PollClosure"
    unfolding listen_socks_def by blast
  from n have n': "drop (length (trace c)) (trace (fst (snd (listen_socks c True ws0 ps bs)))) = new"
    by simp
  from s have s': "take (length ps - length (fst (snd (snd (listen_socks c True ws0 ps bs))))) ps = seen"
    by (rule take_seen)
  show "let r = listen_socks c True ws0 ps bs;
              rest = fst (snd (snd r));
              seen = take (length ps - length rest) ps;
              new = drop (length (trace c)) (trace (fst (snd r)))
          in trace (fst (snd r)) = trace c @ new
             \<and> ps = seen @ rest
             \<and> reconnect_blocks h new
             \<and> count_list new (CreateTask h []) = count_list seen PollClosure
             \<and> length (sleeps new) = count_list seen PollClosure
             \<and> builds new = count_list seen PollClosure"
    unfolding Let_def n' s' using n s r by blast
next
  assume "unshadowed c \<and> \<not> closed c"
  then have "\<not> closed c" by simp
  then show "listen_socks c False (GuildedWebSocket w) (replicate m PollOk @ PollClosure # ps) bs
          = (Returned, c\<lparr>trace := trace c @ [WarnClosed], closed := True, ready := False\<rparr>, ps, bs)"
    by (rule listen_no_reconnect)
next
  assume a: "unshadowed c \<and> (truthy token \<or> truthy (http_token c)) \<and> \<not> closed c"
  then have "truthy token \<or> truthy (http_token c)" and "\<not> closed c"
    by simp_all
  note eq = connect_no_reconnect [OF this, of m ps w bs]
  show "let r = connect c token False (replicate m PollOk @ PollClosure # ps)
                   (Built (GuildedWebSocket w) # bs);
             c1 = connected (emit [Build]
                   (c\<lparr>http_token := (if truthy token then token else http_token c)\<rparr>))
                   (GuildedWebSocket w)
         in r = (Returned, c1\<lparr>trace := trace c1 @ [WarnClosed], closed := True, ready := False\<rparr>)
            \<and> fst r = Returned \<and> closed (snd r)
            \<and> sleeps (trace (snd r)) = sleeps (trace c)
            \<and> builds (trace (snd r)) = Suc (builds (trace c))"
    unfolding eq Let_def
    by (simp add: sleeps_append builds_append sleeps_connected builds_connected emit_def)
qed

theorem disconnect_per_closure_witness:
  "unshadowed listening_client
   \<and> listeners listening_client ''on_disconnect'' = Some (returning ''on_disconnect'')
   \<and> listen_socks listening_client True (GuildedWebSocket 0) [PollClosure] []
       = (Awaiting,
          emit [WarnReconnect 5, CreateTask (returning ''on_disconnect'') [], Sleep 5, Build]
            listening_client, [], [])
   \<and> trace (fst (snd (listen_socks listening_client True (GuildedWebSocket 0)
         [PollClosure, PollOk, PollClosure] [Built (GuildedWebSocket 2), BuildTimeout])))
       = [WarnReconnect 5, CreateTask (returning ''on_disconnect'') [], Sleep 5, Build,
          WarnReconnect 5, CreateTask (returning ''on_disconnect'') [], Sleep 5, Build,
          WarnTimeout]
   \<and> count_list
         (drop (length (trace listening_client))
            (trace (fst (snd (listen_socks listening_client True (GuildedWebSocket 0)
               [PollClosure, PollOk, PollClosure] [Built (GuildedWebSocket 2), BuildTimeout])))))
         (CreateTask (returning ''on_disconnect'') [])
       = 2
   \<and> \<not> closed listening_client
   \<and> listen_socks listening_client False (GuildedWebSocket 0) [PollOk, PollClosure] []
       = (Returned,
          listening_client\<lparr>trace := trace listening_client @ [WarnClosed],
            closed := True, ready := False\<rparr>, [], [])
   \<and> truthy (Some ''secret'')
   \<and> fst (connect listening_client (Some ''secret'') False [PollOk, PollClosure]
            [Built (GuildedWebSocket 0)]) = Returned
   \<and> closed (snd (connect listening_client (Some ''secret'') False [PollOk, PollClosure]
            [Built (GuildedWebSocket 0)]))"
proof -
  have h: "listeners listening_client ''on_disconnect'' = Some (returning ''on_disconnect'')"
    by (simp add: listening_client_listeners)
  have t: "truthy (Some ''secret'')"
    by (simp add: truthy_def)
  have e: "trace listening_client = []"
    by (simp add: listening_client_def fresh_client_def Client_init_def event_def returning_def
        readonly_properties_def)
  have run: "listen_socks listening_client True (GuildedWebSocket 0)
         [PollClosure, PollOk, PollClosure] [Built (GuildedWebSocket 2), BuildTimeout]
       = (Awaiting,
          emit [WarnReconnect 5, CreateTask (returning ''on_disconnect'') [], Sleep 5, Build,
            WarnReconnect 5, CreateTask (returning ''on_disconnect'') [], Sleep 5, Build,
            WarnTimeout] listening_client, [], [])"
    by (simp add: listen_socks_def closure_reconnect_def dispatch_def emit_def
        listening_client_listeners)
  from disconnect_per_closure [of listening_client "returning ''on_disconnect''" 0
      "[PollClosure, PollOk, PollClosure]" "GuildedWebSocket 0"
      "[Built (GuildedWebSocket 2), BuildTimeout]" "Suc 0" "Some ''secret''"]
    disconnect_per_closure [of listening_client "returning ''on_disconnect''" 0 "[]"
      "GuildedWebSocket 0" "[]" "Suc 0" "Some ''secret''"]
    h t e listening_client_open unshadowed_listening
  show ?thesis
    by (simp add: Let_def run emit_def)
qed

section \<open>The token check of \<^verbatim>\<open>connect\<close>\<close>

lemma listen_loop_status:
  "fst (listen_loop c reconnect nb w ps bs) \<in> {Returned, Awaiting, Raised AttributeError}"
proof (induction c reconnect nb w ps bs rule: listen_loop.induct)
  case (6 c nb w ps bs)
  have "fst (close (emit [WarnClosed] c)) = Inr ()"
    by (rule close_never_raises)
  then show ?case
    by (auto split: prod.splits sum.splits)
qed simp_all

lemma connect_loop_status:
  "fst (connect_loop c reconnect ps bs)
     \<in> {Returned, Awaiting, Raised TimeoutError, Raised AttributeError}"
proof (induction c reconnect ps bs rule: connect_loop.induct)
  case (3 c reconnect ps gws bs)
  show ?case
  proof (cases "closed c")
    case True
    then show ?thesis by simp
  next
    case False
    show ?thesis
    proof (cases gws)
      case (GuildedWebSocket k)
      obtain st c' ps' bs' where
        l: "listen_socks (connected (emit [Build] c) gws) reconnect gws ps bs = (st, c', ps', bs')"
        by (cases "listen_socks (connected (emit [Build] c) gws) reconnect gws ps bs") auto
      have "fst (listen_socks (connected (emit [Build] c) gws) reconnect gws ps bs)
          \<in> {Returned, Awaiting, Raised AttributeError}"
        unfolding listen_socks_def by (rule listen_loop_status)
      with l have st: "st \<in> {Returned, Awaiting, Raised AttributeError}"
        by simp
      show ?thesis
      proof (cases "st = Returned")
        case True
        from "3.IH" [OF False GuildedWebSocket l [symmetric] refl refl True]
        show ?thesis using False GuildedWebSocket l True by simp
      next
        case ne: False
        with st False GuildedWebSocket l show ?thesis by auto
      qed
    qed (use False in simp_all)
  qed
qed simp_all

text \<open>
  C3, as the code has it: \<^verbatim>\<open>connect\<close> called with no token argument (\<^verbatim>\<open>None\<close> or the empty
  string) on a client whose HTTP client holds no token (\<^verbatim>\<open>None\<close> or the empty string)
  raises \<^verbatim>\<open>ClientException\<close> and leaves the client as it was, so nothing was built,
  dispatched or logged. With a non-empty token as argument or in the HTTP client,
  \<^verbatim>\<open>connect\<close> does not raise \<^verbatim>\<open>ClientException\<close>, whatever the websocket does.
\<close>

theorem connect_without_token:
  "(\<not> truthy token \<and> \<not> truthy (http_token c) \<longrightarrow>
      connect c token reconnect ps bs = (Raised ClientException, c))
   \<and> (truthy token \<or> truthy (http_token c) \<longrightarrow>
      fst (connect c token reconnect ps bs) \<noteq> Raised ClientException)"
proof (intro conjI impI)
  assume "\<not> truthy token \<and> \<not> truthy (http_token c)"
  then show "connect c token reconnect ps bs = (Raised ClientException, c)"
    by (simp add: connect_def)
next
  assume a: "truthy token \<or> truthy (http_token c)"
  define c1 where "c1 = c\<lparr>http_token := (if truthy token then token else http_token c)\<rparr>"
  from a have "truthy (http_token c1)"
    by (auto simp: c1_def)
  then have "connect c token reconnect ps bs = connect_loop c1 reconnect ps bs"
    by (simp add: connect_def c1_def Let_def)
  moreover have "fst (connect_loop c1 reconnect ps bs) \<noteq> Raised ClientException"
    using connect_loop_status [of c1 reconnect ps bs] by auto
  ultimately show "fst (connect c token reconnect ps bs) \<noteq> Raised ClientException"
    by simp
qed

theorem connect_without_token_witness:
  "\<not> truthy None \<and> \<not> truthy (http_token (fresh_client\<lparr>http_token := None\<rparr>))
   \<and> connect (fresh_client\<lparr>http_token := None\<rparr>) None True [PollOk] [Built (GuildedWebSocket 0)]
       = (Raised ClientException, fresh_client\<lparr>http_token := None\<rparr>)
   \<and> truthy (Some ''secret'')
   \<and> fst (connect (fresh_client\<lparr>http_token := None\<rparr>) (Some ''secret'') True [PollOk]
            [Built (GuildedWebSocket 0)])
       \<noteq> Raised ClientException"
proof -
  have a: "\<not> truthy None" and b: "\<not> truthy (http_token (fresh_client\<lparr>http_token := None\<rparr>))"
    and t: "truthy (Some ''secret'')"
    by (simp_all add: truthy_def)
  from connect_without_token [of None "fresh_client\<lparr>http_token := None\<rparr>" True "[PollOk]"
      "[Built (GuildedWebSocket 0)]"]
    connect_without_token [of "Some ''secret''" "fresh_client\<lparr>http_token := None\<rparr>" True
      "[PollOk]" "[Built (GuildedWebSocket 0)]"]
    a b t
  show ?thesis
    by blast
qed

text \<open>
  The error of a missing token is a \<^verbatim>\<open>ClientException\<close>, no class named
  \<^verbatim>\<open>AuthenticationError\<close>; and an empty string passed as token counts as no token.
\<close>

theorem connect_without_token_counterexample:
  "fst (connect (fresh_client\<lparr>http_token := None\<rparr>) None True [] []) = Raised ClientException
   \<and> exn_name ClientException \<noteq> ''AuthenticationError''
   \<and> fst (connect (fresh_client\<lparr>http_token := None\<rparr>) (Some []) True [PollOk]
            [Built (GuildedWebSocket 0)])
       = Raised ClientException"
  by (simp add: connect_def truthy_def)

section \<open>Handlers that raise\<close>

lemma on_error_failing: "on_error failing_client = Client_on_error"
  by (simp add: on_error_def failing_client_def fresh_client_def Client_init_def event_def
      raising_def readonly_properties_def)

text \<open>
  C4, at a registered handler that raises \<^verbatim>\<open>ValueError\<close>: \<^verbatim>\<open>dispatch\<close> schedules the bare
  handler call, so the task that runs it ends in the \<^verbatim>\<open>ValueError\<close> and \<^verbatim>\<open>on_error\<close> is
  never awaited. The same handler scheduled by \<^verbatim>\<open>_schedule_event\<close> runs inside
  \<^verbatim>\<open>_run_event\<close>, which catches the exception and awaits \<^verbatim>\<open>on_error\<close> once; nothing in
  \<^verbatim>\<open>dispatch\<close> takes that path.
\<close>

theorem dispatch_bypasses_run_event:
  "listeners failing_client ''on_message'' = Some (raising ''on_message'' (Exception ''ValueError''))
   \<and> dispatch failing_client ''message'' []
       = emit [CreateTask (raising ''on_message'' (Exception ''ValueError'')) []] failing_client
   \<and> run_task failing_client (CreateTask (raising ''on_message'' (Exception ''ValueError'')) [])
       = (Inl (Exception ''ValueError''),
          emit [Await (raising ''on_message'' (Exception ''ValueError'')) []] failing_client)
   \<and> schedule_event failing_client (raising ''on_message'' (Exception ''ValueError'')) ''message'' []
       = emit [RunEventTask (raising ''on_message'' (Exception ''ValueError'')) ''message'' []]
           failing_client
   \<and> run_task failing_client
         (RunEventTask (raising ''on_message'' (Exception ''ValueError'')) ''message'' [])
       = (Inr (),
          emit [Await (raising ''on_message'' (Exception ''ValueError'')) [],
                Await Client_on_error [Str ''message'']] failing_client)"
proof -
  have l: "listeners failing_client ''on_message''
      = Some (raising ''on_message'' (Exception ''ValueError''))"
    by (simp add: failing_client_def fresh_client_def Client_init_def event_def raising_def
        readonly_properties_def)
  have r: "run (raising ''on_message'' (Exception ''ValueError'')) [] = Inl (Exception ''ValueError'')"
    and d: "run Client_on_error [Str ''message''] = Inr ()"
    by (simp_all add: raising_def Client_on_error_def)
  from l show ?thesis
    by (simp add: dispatch_def schedule_event_def run_event_def Let_def r d emit_def
        on_error_def on_error_failing [unfolded on_error_def])
qed

section \<open>Registering handlers\<close>

lemma on_name_settable: "''on_'' @ ev \<notin> set readonly_properties"
  by (simp add: readonly_properties_def)

text \<open>
  C7, as the code has it: \<^verbatim>\<open>event\<close> called with a callable that is no coroutine function
  raises \<^verbatim>\<open>TypeError\<close> and registers nothing; called with a coroutine function named like a
  read-only property of the client it raises \<^verbatim>\<open>AttributeError\<close> and registers nothing;
  called with a coroutine function named \<^verbatim>\<open>on_<event>\<close> it returns that function and the
  registry holds it under its name.
\<close>

theorem event_registration:
  "(\<not> iscoroutinefunction coro \<longrightarrow> event c coro = (Inl TypeError, c))
   \<and> (iscoroutinefunction coro \<and> name_of coro \<in> set readonly_properties \<longrightarrow>
        event c coro = (Inl AttributeError, c))
   \<and> (iscoroutinefunction coro \<and> name_of coro = ''on_'' @ ev \<longrightarrow>
        fst (event c coro) = Inr coro
        \<and> listeners (snd (event c coro)) (name_of coro) = Some coro)"
  using on_name_settable [of ev] by (simp add: event_def)

theorem event_registration_witness:
  "\<not> iscoroutinefunction (plain_function ''on_message'')
   \<and> event fresh_client (plain_function ''on_message'') = (Inl TypeError, fresh_client)
   \<and> iscoroutinefunction (returning ''latency'')
   \<and> name_of (returning ''latency'') \<in> set readonly_properties
   \<and> event fresh_client (returning ''latency'') = (Inl AttributeError, fresh_client)
   \<and> iscoroutinefunction (returning ''on_message'')
   \<and> name_of (returning ''on_message'') = ''on_'' @ ''message''
   \<and> fst (event fresh_client (returning ''on_message'')) = Inr (returning ''on_message'')
   \<and> listeners (snd (event fresh_client (returning ''on_message''))) ''on_message''
      = Some (returning ''on_message'')"
proof -
  have a: "\<not> iscoroutinefunction (plain_function ''on_message'')"
    and b: "iscoroutinefunction (returning ''latency'')"
      "name_of (returning ''latency'') \<in> set readonly_properties"
    and d: "iscoroutinefunction (returning ''on_message'')"
      "name_of (returning ''on_message'') = ''on_'' @ ''message''"
    by (simp_all add: plain_function_def returning_def readonly_properties_def)
  from event_registration [of "plain_function ''on_message''" fresh_client]
    event_registration [of "returning ''latency''" fresh_client]
    event_registration [of "returning ''on_message''" fresh_client "''message''"]
    a b d
  show ?thesis
    by simp
qed

text \<open>
  A plain function is refused with \<^verbatim>\<open>TypeError\<close>, no class named \<^verbatim>\<open>ConfigurationError\<close>;
  and a coroutine function named \<^verbatim>\<open>closed\<close> is refused with \<^verbatim>\<open>AttributeError\<close>.
\<close>

theorem event_registration_counterexample:
  "fst (event fresh_client (plain_function ''on_message'')) = Inl TypeError
   \<and> exn_name TypeError \<noteq> ''ConfigurationError''
   \<and> iscoroutinefunction (returning ''closed'')
   \<and> fst (event fresh_client (returning ''closed'')) = Inl AttributeError"
  by (simp add: event_def plain_function_def returning_def readonly_properties_def)

text \<open>
  C9: the registry is a mapping from names to single handlers. Registering a second
  coroutine function under the name \<^verbatim>\<open>on_<event>\<close> of an earlier one replaces it: the
  registry then holds the second one under that name, every other entry is as before,
  and dispatching the event schedules exactly one task, which runs the second handler.
\<close>

theorem event_replaces_handler:
  "iscoroutinefunction h1 \<and> iscoroutinefunction h2
   \<and> name_of h1 = ''on_'' @ ev \<and> name_of h2 = ''on_'' @ ev \<longrightarrow>
   (let c2 = snd (event (snd (event c h1)) h2) in
      listeners c2 (''on_'' @ ev) = Some h2
      \<and> (\<forall>k. k \<noteq> ''on_'' @ ev \<longrightarrow> listeners c2 k = listeners c k)
      \<and> trace c2 = trace c
      \<and> dispatch c2 ev args = emit [CreateTask h2 args] c2)"
  using on_name_settable [of ev] by (simp add: event_def dispatch_def Let_def)

theorem event_replaces_handler_witness:
  "iscoroutinefunction (raising ''on_message'' TypeError)
   \<and> iscoroutinefunction (returning ''on_message'')
   \<and> name_of (raising ''on_message'' TypeError) = ''on_'' @ ''message''
   \<and> name_of (returning ''on_message'') = ''on_'' @ ''message''
   \<and> listeners (snd (event (snd (event fresh_client (raising ''on_message'' TypeError)))
        (returning ''on_message''))) ''on_message'' = Some (returning ''on_message'')
   \<and> dispatch (snd (event (snd (event fresh_client (raising ''on_message'' TypeError)))
        (returning ''on_message''))) ''message'' [Str ''hi'']
      = emit [CreateTask (returning ''on_message'') [Str ''hi'']]
          (snd (event (snd (event fresh_client (raising ''on_message'' TypeError)))
             (returning ''on_message'')))"
proof -
  have a: "iscoroutinefunction (raising ''on_message'' TypeError)"
      "iscoroutinefunction (returning ''on_message'')"
      "name_of (raising ''on_message'' TypeError) = ''on_'' @ ''message''"
      "name_of (returning ''on_message'') = ''on_'' @ ''message''"
    by (simp_all add: raising_def returning_def)
  from event_replaces_handler [of "raising ''on_message'' TypeError" "returning ''on_message''"
      "''message''" fresh_client "[Str ''hi'']"] a
  show ?thesis
    by (simp add: Let_def)
qed

section \<open>Cache accessors and REST fetches\<close>

text \<open>
  C8: \<^verbatim>\<open>get_user\<close> and \<^verbatim>\<open>get_channel\<close> return what the caches hold and leave the client,
  its trace of REST calls included, unchanged; \<^verbatim>\<open>fetch_user\<close> issues exactly one REST call
  whether or not the user is cached, and changes nothing else; \<^verbatim>\<open>getch_user\<close> returns a
  cached user with no REST call and is \<^verbatim>\<open>fetch_user\<close> when the cache has none.
\<close>

theorem accessors_cache_and_rest:
  "get_user c uid = (users c uid, c)
   \<and> get_channel c cid
       = (case team_channels c cid of Some ch \<Rightarrow> Some ch | None \<Rightarrow> dm_channels c cid, c)
   \<and> snd (fetch_user c uid response) = emit [HttpGetUser uid] c
   \<and> (users c uid = Some u \<longrightarrow> getch_user c uid response = (Inr u, c))
   \<and> (users c uid = None \<longrightarrow> getch_user c uid response = fetch_user c uid response)"
  by (simp add: get_user_def get_channel_def fetch_user_def getch_user_def
      http_cache_get_user_def http_cache_get_global_team_channel_def
      http_cache_get_dm_channel_def http_get_user_def split: option.split sum.split)

theorem accessors_cache_and_rest_witness:
  "users cached_client ''u1'' = Some (User [(''id'', ''u1'')])
   \<and> getch_user cached_client ''u1'' (Inl HTTPException)
       = (Inr (User [(''id'', ''u1'')]), cached_client)
   \<and> snd (fetch_user cached_client ''u1'' (Inr [(''id'', ''u1'')]))
       = emit [HttpGetUser ''u1''] cached_client
   \<and> users cached_client ''u2'' = None
   \<and> getch_user cached_client ''u2'' (Inr [(''id'', ''u2'')])
       = (Inr (User [(''id'', ''u2'')]), emit [HttpGetUser ''u2''] cached_client)"
proof -
  have a: "users cached_client ''u1'' = Some (User [(''id'', ''u1'')])"
    and b: "users cached_client ''u2'' = None"
    by (simp_all add: cached_client_def fresh_client_def Client_init_def)
  have f: "fetch_user cached_client ''u2'' (Inr [(''id'', ''u2'')])
      = (Inr (User [(''id'', ''u2'')]), emit [HttpGetUser ''u2''] cached_client)"
    by (simp add: fetch_user_def http_get_user_def)
  from accessors_cache_and_rest [of cached_client "''u1''" "''c''" "Inr [(''id'', ''u1'')]"
      "User [(''id'', ''u1'')]"]
    accessors_cache_and_rest [of cached_client "''u1''" "''c''" "Inl HTTPException"
      "User [(''id'', ''u1'')]"]
    accessors_cache_and_rest [of cached_client "''u2''" "''c''" "Inr [(''id'', ''u2'')]"]
    a b f
  show ?thesis
    by simp
qed

end
